theory Spec2Isabelle
  imports Complex_Main
begin

section \<open>Strings and numbers of the source language\<close>

text \<open>
  Strings are lists of characters; a character stands for a code unit in the Latin-1
  range. \<open>toLowerCase\<close> maps the upper-case letters of that range (A-Z, and U+00C0 to
  U+00DE without the multiplication sign U+00D7) to their lower-case partners, as the
  source language does, and leaves every other character alone.
\<close>

definition lowerChar :: "char \<Rightarrow> char" where
  "lowerChar c =
     (let n = (of_char c :: nat)
      in if 65 \<le> n \<and> n \<le> 90 then char_of (n + 32)
         else if n = 215 then c
         else if 192 \<le> n \<and> n \<le> 222 then char_of (n + 32)
         else c)"

definition toLowerCase :: "string \<Rightarrow> string" where
  "toLowerCase s = map lowerChar s"

definition startsWith :: "string \<Rightarrow> string \<Rightarrow> bool" where
  "startsWith s sub = (take (length sub) s = sub)"

text \<open>\<open>strIncludes s sub\<close> is \<open>s.includes(sub)\<close>: \<open>sub\<close> occurs in \<open>s\<close> at some position.\<close>

fun strIncludes :: "string \<Rightarrow> string \<Rightarrow> bool" where
  "strIncludes [] sub = (sub = [])"
| "strIncludes (c # cs) sub = (startsWith (c # cs) sub \<or> strIncludes cs sub)"

text \<open>
  Numbers are exact rationals. A division by zero in the source gives \<open>NaN\<close> (for
  \<open>0 / 0\<close>) or an infinity; the only place where that can happen is the strength
  formula below, whose result type therefore has a \<open>NaN\<close> value next to the finite ones
  (the infinity is clamped to 1 there). Every comparison with \<open>NaN\<close> is false.
\<close>

datatype number = Num rat | NaN

fun numGreater :: "number \<Rightarrow> rat \<Rightarrow> bool" where
  "numGreater (Num r) t = (r > t)"
| "numGreater NaN t = False"

section \<open>Data model of the graph extraction\<close>

record entity =
  e_id :: string
  e_episode_id :: string
  e_name :: string
  e_type :: string
  e_context :: string
  e_amazon_searchable :: bool
  e_amazon_keywords :: "string list option"
  e_confidence_score :: "rat option"

record relationship =
  r_id :: string
  r_episode_id :: string
  r_entity1_id :: string
  r_entity1_name :: string
  r_entity2_id :: string
  r_entity2_name :: string
  r_relationship_type :: string
  r_description :: string
  r_confidence_score :: "rat option"
  r_is_cross_episode :: "bool option"

record cross_episode_relationship =
  x_id :: string
  x_episode1_id :: string
  x_episode1_title :: string
  x_episode2_id :: string
  x_episode2_title :: string
  x_shared_entities :: "string list"
  x_relationship_strength :: number
  x_common_themes :: "string list"

record episode_data =
  d_episode_id :: string
  d_episode_title :: string
  d_episode_number :: "int option"
  d_date :: "string option"
  d_url :: "string option"
  d_entities :: "entity list"
  d_relationships :: "relationship list"

section \<open>Cross-episode linker\<close>

text \<open>
  \<open>findSharedEntities\<close>: the outer loop runs over the first episode's entities, the
  inner loop stops at the first entity of the second episode with the same lower-cased
  name and the same type, and then the entity of the first episode is pushed.
\<close>

definition sameEntity :: "entity \<Rightarrow> entity \<Rightarrow> bool" where
  "sameEntity entity1 entity2 =
     (toLowerCase (e_name entity1) = toLowerCase (e_name entity2) \<and>
      e_type entity1 = e_type entity2)"

fun findSharedEntities :: "entity list \<Rightarrow> entity list \<Rightarrow> entity list" where
  "findSharedEntities [] entities2 = []"
| "findSharedEntities (entity1 # entities1) entities2 =
     (if list_ex (sameEntity entity1) entities2
      then entity1 # findSharedEntities entities1 entities2
      else findSharedEntities entities1 entities2)"

text \<open>The \<open>switch\<close> on the entity type inside \<open>calculateRelationshipStrength\<close>.\<close>

definition typeWeight :: "string \<Rightarrow> rat" where
  "typeWeight t =
     (if t = ''person'' then 3
      else if t = ''place'' then 5 / 2
      else if t = ''product'' then 2
      else if t = ''media'' then 3 / 2
      else 1)"

definition calculateRelationshipStrength ::
  "entity list \<Rightarrow> episode_data \<Rightarrow> episode_data \<Rightarrow> number" where
  "calculateRelationshipStrength sharedEntities ep1 ep2 =
     (let totalEntities1 = length (d_entities ep1);
          totalEntities2 = length (d_entities ep2);
          weightedScore = fold (\<lambda>entity acc. acc + typeWeight (e_type entity)) sharedEntities 0;
          m = max totalEntities1 totalEntities2
      in if m = 0 then (if weightedScore = 0 then NaN else Num 1)
         else Num (min 1 ((weightedScore / of_nat m) * 2)))"

text \<open>
  \<open>extractCommonThemes\<close> collects labels in a set that keeps insertion order; \<open>setAdd\<close>
  is the insertion, and the five tests of one loop round are applied in the source's
  order.
\<close>

definition setAdd :: "string \<Rightarrow> string list \<Rightarrow> string list" where
  "setAdd x s = (if x \<in> set s then s else s @ [x])"

definition themesOf :: "entity \<Rightarrow> string list \<Rightarrow> string list" where
  "themesOf entity themes =
     (let t1 = (if e_type entity = ''person'' then setAdd ''Entrepreneurship'' themes else themes);
          t2 = (if e_type entity = ''place'' \<and> strIncludes (e_context entity) ''company''
                then setAdd ''Business Strategy'' t1 else t1);
          t3 = (if e_type entity = ''product'' then setAdd ''Product Development'' t2 else t2);
          t4 = (if e_type entity = ''media'' \<and> strIncludes (e_context entity) ''book''
                then setAdd ''Business Literature'' t3 else t3)
      in if e_amazon_searchable entity then setAdd ''Recommended Products'' t4 else t4)"

definition extractCommonThemes :: "entity list \<Rightarrow> string list" where
  "extractCommonThemes sharedEntities = fold themesOf sharedEntities []"

text \<open>The record pushed for a retained pair.\<close>

definition crossRecord ::
  "episode_data \<Rightarrow> episode_data \<Rightarrow> entity list \<Rightarrow> number \<Rightarrow> cross_episode_relationship" where
  "crossRecord episode1 episode2 sharedEntities relationshipStrength =
     \<lparr> x_id = ''cross_'' @ d_episode_id episode1 @ ''_'' @ d_episode_id episode2,
       x_episode1_id = d_episode_id episode1,
       x_episode1_title = d_episode_title episode1,
       x_episode2_id = d_episode_id episode2,
       x_episode2_title = d_episode_title episode2,
       x_shared_entities = map e_name sharedEntities,
       x_relationship_strength = relationshipStrength,
       x_common_themes = extractCommonThemes sharedEntities \<rparr>"

text \<open>
  One round of the inner loop body of \<open>detectCrossEpisodeRelationships\<close> for the
  episodes at positions \<open>i\<close> and \<open>j\<close>, then the two loops over the indices.
\<close>

definition linkPair ::
  "episode_data \<Rightarrow> episode_data \<Rightarrow> cross_episode_relationship list
     \<Rightarrow> cross_episode_relationship list" where
  "linkPair episode1 episode2 crossEpisodeRels =
     (let sharedEntities = findSharedEntities (d_entities episode1) (d_entities episode2)
      in if length sharedEntities > 0
         then (let relationshipStrength =
                     calculateRelationshipStrength sharedEntities episode1 episode2
               in if numGreater relationshipStrength (3 / 10)
                  then crossEpisodeRels @
                         [crossRecord episode1 episode2 sharedEntities relationshipStrength]
                  else crossEpisodeRels)
         else crossEpisodeRels)"

function detectInner ::
  "episode_data list \<Rightarrow> nat \<Rightarrow> nat \<Rightarrow> cross_episode_relationship list
     \<Rightarrow> cross_episode_relationship list" where
  "detectInner allEpisodeData i j crossEpisodeRels =
     (if j < length allEpisodeData
      then detectInner allEpisodeData i (Suc j)
             (linkPair (allEpisodeData ! i) (allEpisodeData ! j) crossEpisodeRels)
      else crossEpisodeRels)"
  by pat_completeness auto
termination
  by (relation "measure (\<lambda>(eps, i, j, acc). length eps - j)") auto

function detectOuter ::
  "episode_data list \<Rightarrow> nat \<Rightarrow> cross_episode_relationship list
     \<Rightarrow> cross_episode_relationship list" where
  "detectOuter allEpisodeData i crossEpisodeRels =
     (if i < length allEpisodeData
      then detectOuter allEpisodeData (Suc i)
             (detectInner allEpisodeData i (Suc i) crossEpisodeRels)
      else crossEpisodeRels)"
  by pat_completeness auto
termination
  by (relation "measure (\<lambda>(eps, i, acc). length eps - i)") auto

declare detectInner.simps [simp del] detectOuter.simps [simp del]

definition detectCrossEpisodeRelationships ::
  "episode_data list \<Rightarrow> cross_episode_relationship list" where
  "detectCrossEpisodeRelationships allEpisodeData = detectOuter allEpisodeData 0 []"





section \<open>Search engine\<close>

subsection \<open>Counting the matches of the query used as a regular expression\<close>

text \<open>
  \<open>calculateRelevanceScore\<close> counts occurrences with
  \<open>lowerText.match(new RegExp(lowerSearchTerm, 'g'))\<close>: the lower-cased query is
  compiled as a pattern, not quoted. Three cases are told apart.
  \<^item> No syntax character in the pattern: it matches itself only, and the global match
    finds the occurrences from left to right without overlap; the empty pattern matches
    once at every position, the end included.
  \<^item> The only syntax characters are the quantifiers \<open>*\<close>, \<open>+\<close> and \<open>?\<close>: the pattern is
    a sequence of characters, each with an optional quantifier and an optional \<open>?\<close>
    after the quantifier. A quantifier with nothing to repeat makes the compilation fail
    with a \<open>SyntaxError\<close>, which \<open>calculateRelevanceScore\<close> does not catch.
  \<^item> Any other pattern is left to the parameter \<open>engine\<close>, which stands for the
    platform's compilation and global match of a pattern with syntax characters.
\<close>

datatype js_error = SyntaxError

type_synonym regex_engine = "string \<Rightarrow> string \<Rightarrow> js_error + nat"

definition syntaxChar :: "char \<Rightarrow> bool" where
  "syntaxChar c = (c \<in> set [CHR ''^'', CHR ''$'', CHR 0x5C, CHR ''.'', CHR ''*'', CHR ''+'',
       CHR ''?'', CHR ''('', CHR '')'', CHR ''['', CHR '']'', CHR ''{'', CHR ''}'', CHR ''|''])"

definition quantifierChar :: "char \<Rightarrow> bool" where
  "quantifierChar c = (c = CHR ''*'' \<or> c = CHR ''+'' \<or> c = CHR ''?'')"

datatype rx_state = NeedAtom | AfterAtom | AfterQuantifier

fun nothingToRepeat :: "rx_state \<Rightarrow> string \<Rightarrow> bool" where
  "nothingToRepeat st [] = False"
| "nothingToRepeat st (c # cs) =
     (if quantifierChar c
      then (case st of
              NeedAtom \<Rightarrow> True
            | AfterAtom \<Rightarrow> nothingToRepeat AfterQuantifier cs
            | AfterQuantifier \<Rightarrow>
                (if c = CHR ''?'' then nothingToRepeat NeedAtom cs else True))
      else nothingToRepeat AfterAtom cs)"

function countMatches :: "string \<Rightarrow> string \<Rightarrow> nat" where
  "countMatches pat [] = 0"
| "countMatches pat (c # cs) =
     (if pat \<noteq> [] \<and> startsWith (c # cs) pat
      then Suc (countMatches pat (drop (length pat) (c # cs)))
      else countMatches pat cs)"
  by pat_completeness auto
termination
  by (relation "measure (\<lambda>(pat, s). length s)") auto

definition regexMatchCount :: "regex_engine \<Rightarrow> string \<Rightarrow> string \<Rightarrow> js_error + nat" where
  "regexMatchCount engine pat text =
     (if \<not> list_ex syntaxChar pat
      then Inr (if pat = [] then length text + 1 else countMatches pat text)
      else if list_all (\<lambda>c. syntaxChar c = quantifierChar c) pat \<and> nothingToRepeat NeedAtom pat
      then Inl SyntaxError
      else engine pat text)"

subsection \<open>Relevance score\<close>

definition baseScoreOf :: "string \<Rightarrow> rat" where
  "baseScoreOf matchType =
     (if matchType = ''episode_title'' then 100
      else if matchType = ''entity_name'' then 90
      else if matchType = ''relationship_description'' then 80
      else if matchType = ''entity_context'' then 70
      else if matchType = ''episode_text'' then 60
      else 50)"

text \<open>\<open>s.split(' ')\<close>: the pieces between the spaces, empty pieces included.\<close>

fun splitOn :: "char \<Rightarrow> string \<Rightarrow> string list" where
  "splitOn d [] = [[]]"
| "splitOn d (c # cs) =
     (if c = d then [] # splitOn d cs
      else (case splitOn d cs of
              [] \<Rightarrow> [[c]]
            | w # ws \<Rightarrow> (c # w) # ws))"

text \<open>\<open>Math.round\<close> rounds to the nearest integer, halves upwards.\<close>

definition mathRound :: "rat \<Rightarrow> rat" where
  "mathRound x = of_int \<lfloor>x + 1 / 2\<rfloor>"

definition exactScore :: "string \<Rightarrow> nat \<Rightarrow> nat \<Rightarrow> rat" where
  "exactScore matchType matches textLength =
     (let baseScore = baseScoreOf matchType;
          matchBonus = min (of_nat matches * 10) 50;
          lengthPenalty = max 0 ((of_nat textLength - 100) / 100)
      in max 1 (baseScore + matchBonus - lengthPenalty))"

definition fuzzyScore :: "string \<Rightarrow> string \<Rightarrow> rat" where
  "fuzzyScore lowerSearchTerm lowerText =
     (let words = splitOn CHR '' '' lowerSearchTerm;
          matchingWords = filter (\<lambda>word. strIncludes lowerText word) words
      in if length matchingWords > 0
         then (let wordMatchRatio = of_nat (length matchingWords) / of_nat (length words)
               in mathRound (wordMatchRatio * 30))
         else 0)"

definition calculateRelevanceScore ::
  "regex_engine \<Rightarrow> string \<Rightarrow> string \<Rightarrow> string \<Rightarrow> js_error + rat" where
  "calculateRelevanceScore engine searchTerm text matchType =
     (let lowerSearchTerm = toLowerCase searchTerm;
          lowerText = toLowerCase text
      in if strIncludes lowerText lowerSearchTerm
         then (case regexMatchCount engine lowerSearchTerm lowerText of
                 Inl err \<Rightarrow> Inl err
               | Inr matches \<Rightarrow> Inr (exactScore matchType matches (length text)))
         else Inr (fuzzyScore lowerSearchTerm lowerText))"

subsection \<open>Corpus and result rows\<close>

record episode =
  ep_title :: string
  ep_text :: string
  ep_episode_number :: "int option"
  ep_date :: "string option"
  ep_url :: "string option"
  ep_episode_id :: string

record podcast_data =
  pd_episodes :: "episode list"

record graph_output =
  g_episodes :: "episode_data list"
  g_all_entities :: "entity list"
  g_all_relationships :: "relationship list"
  g_amazon_products :: "entity list"

record search_result =
  s_episode_id :: string
  s_episode_title :: string
  s_episode_number :: "int option"
  s_episode_url :: "string option"
  s_episode_date :: "string option"
  s_match_type :: string
  s_match_details :: string
  s_entities_linked :: "entity list"
  s_relationships_linked :: "relationship list"
  s_relevance_score :: rat

text \<open>
  The two data sets that \<open>search\<close> loads before it searches are the fields
  \<open>summaryData\<close> and \<open>entityData\<close> of the engine; either may be \<open>null\<close>. Reading the files
  is outside the model: the functions below take the loaded values.
\<close>

definition findEpisodeById :: "podcast_data option \<Rightarrow> string \<Rightarrow> episode option" where
  "findEpisodeById summaryData episodeId =
     (case summaryData of
        None \<Rightarrow> None
      | Some sd \<Rightarrow> find (\<lambda>ep. ep_episode_id ep = episodeId) (pd_episodes sd))"

definition entitiesOf :: "graph_output option \<Rightarrow> string \<Rightarrow> entity list" where
  "entitiesOf entityData episodeId =
     (case entityData of
        None \<Rightarrow> []
      | Some ed \<Rightarrow> filter (\<lambda>e. e_episode_id e = episodeId) (g_all_entities ed))"

definition relationshipsOf :: "graph_output option \<Rightarrow> string \<Rightarrow> relationship list" where
  "relationshipsOf entityData episodeId =
     (case entityData of
        None \<Rightarrow> []
      | Some ed \<Rightarrow> filter (\<lambda>r. r_episode_id r = episodeId) (g_all_relationships ed))"

definition resultRow ::
  "graph_output option \<Rightarrow> episode \<Rightarrow> string \<Rightarrow> string \<Rightarrow> rat \<Rightarrow> search_result" where
  "resultRow entityData ep matchType matchDetails relevanceScore =
     \<lparr> s_episode_id = ep_episode_id ep,
       s_episode_title = ep_title ep,
       s_episode_number = ep_episode_number ep,
       s_episode_url = ep_url ep,
       s_episode_date = ep_date ep,
       s_match_type = matchType,
       s_match_details = matchDetails,
       s_entities_linked = entitiesOf entityData (ep_episode_id ep),
       s_relationships_linked = relationshipsOf entityData (ep_episode_id ep),
       s_relevance_score = relevanceScore \<rparr>"

text \<open>String helpers of the match details.\<close>

definition dq :: string where
  "dq = [CHR 0x22]"

fun indexOf :: "string \<Rightarrow> string \<Rightarrow> int" where
  "indexOf [] sub = (if sub = [] then 0 else - 1)"
| "indexOf (c # cs) sub =
     (if startsWith (c # cs) sub then 0
      else (let k = indexOf cs sub in if k < 0 then - 1 else k + 1))"

definition substring :: "string \<Rightarrow> int \<Rightarrow> int \<Rightarrow> string" where
  "substring s a b =
     (let n = int (length s);
          a' = max 0 (min n a);
          b' = max 0 (min n b);
          lo = min a' b';
          hi = max a' b'
      in take (nat (hi - lo)) (drop (nat lo) s))"

subsection \<open>Searching the episodes\<close>

text \<open>
  One round of the loop of \<open>searchInEpisodeText\<close>: the title is tried first, the text
  only when the title does not contain the query; \<open>None\<close> when neither matches.
\<close>

definition episodeMatch ::
  "regex_engine \<Rightarrow> graph_output option \<Rightarrow> string \<Rightarrow> episode
     \<Rightarrow> js_error + search_result option" where
  "episodeMatch engine entityData searchTerm ep =
     (let lowerSearchTerm = toLowerCase searchTerm
      in if strIncludes (toLowerCase (ep_title ep)) lowerSearchTerm
         then (case calculateRelevanceScore engine searchTerm (ep_title ep) ''episode_title'' of
                 Inl err \<Rightarrow> Inl err
               | Inr relevanceScore \<Rightarrow>
                   Inr (Some (resultRow entityData ep ''episode_title''
                     (''Found '' @ dq @ searchTerm @ dq @ '' in episode title: '' @ dq @
                        ep_title ep @ dq)
                     relevanceScore)))
         else if ep_text ep \<noteq> [] \<and> strIncludes (toLowerCase (ep_text ep)) lowerSearchTerm
         then (let textLower = toLowerCase (ep_text ep);
                   matchIndex = indexOf textLower lowerSearchTerm;
                   contextStart = max 0 (matchIndex - 100);
                   contextEnd = min (int (length (ep_text ep)))
                                    (matchIndex + int (length searchTerm) + 100);
                   context = substring (ep_text ep) contextStart contextEnd
               in case calculateRelevanceScore engine searchTerm (ep_text ep) ''episode_text'' of
                    Inl err \<Rightarrow> Inl err
                  | Inr relevanceScore \<Rightarrow>
                      Inr (Some (resultRow entityData ep ''episode_text''
                        (''Found '' @ dq @ searchTerm @ dq @ '' in episode text: '' @ dq @
                           ''...'' @ context @ ''...'' @ dq)
                        relevanceScore)))
         else Inr None)"

fun episodeLoop ::
  "regex_engine \<Rightarrow> graph_output option \<Rightarrow> string \<Rightarrow> episode list \<Rightarrow> search_result list
     \<Rightarrow> js_error + search_result list" where
  "episodeLoop engine entityData searchTerm [] results = Inr results"
| "episodeLoop engine entityData searchTerm (ep # eps) results =
     (case episodeMatch engine entityData searchTerm ep of
        Inl err \<Rightarrow> Inl err
      | Inr None \<Rightarrow> episodeLoop engine entityData searchTerm eps results
      | Inr (Some row) \<Rightarrow> episodeLoop engine entityData searchTerm eps (results @ [row]))"

definition searchInEpisodeText ::
  "regex_engine \<Rightarrow> podcast_data option \<Rightarrow> graph_output option \<Rightarrow> string
     \<Rightarrow> js_error + search_result list" where
  "searchInEpisodeText engine summaryData entityData searchTerm =
     (case summaryData of
        None \<Rightarrow> Inr []
      | Some sd \<Rightarrow> episodeLoop engine entityData searchTerm (pd_episodes sd) [])"

subsection \<open>Searching the entities\<close>

text \<open>
  One round of the loop of \<open>searchInEntities\<close> computes match type, details and score
  of the entity (name first, context second). The loop then pushes a row only for the
  first matching entity of an episode: \<open>processedEpisodes\<close> holds the episode ids seen.
\<close>

definition entityMatch ::
  "regex_engine \<Rightarrow> string \<Rightarrow> entity \<Rightarrow> js_error + (string \<times> string \<times> rat) option" where
  "entityMatch engine searchTerm entity =
     (let lowerSearchTerm = toLowerCase searchTerm
      in if strIncludes (toLowerCase (e_name entity)) lowerSearchTerm
         then (case calculateRelevanceScore engine searchTerm (e_name entity) ''entity_name'' of
                 Inl err \<Rightarrow> Inl err
               | Inr relevanceScore \<Rightarrow>
                   Inr (Some (''entity_name'',
                     ''Found '' @ dq @ searchTerm @ dq @ '' in entity name: '' @ dq @
                       e_name entity @ dq @ '' ('' @ e_type entity @ '')'',
                     relevanceScore)))
         else if e_context entity \<noteq> [] \<and>
                 strIncludes (toLowerCase (e_context entity)) lowerSearchTerm
         then (case calculateRelevanceScore engine searchTerm (e_context entity)
                      ''entity_context'' of
                 Inl err \<Rightarrow> Inl err
               | Inr relevanceScore \<Rightarrow>
                   Inr (Some (''entity_context'',
                     ''Found '' @ dq @ searchTerm @ dq @ '' in entity context for '' @ dq @
                       e_name entity @ dq @ '': '' @ dq @ e_context entity @ dq,
                     relevanceScore)))
         else Inr None)"

fun entityLoop ::
  "regex_engine \<Rightarrow> podcast_data option \<Rightarrow> graph_output option \<Rightarrow> string \<Rightarrow> entity list
     \<Rightarrow> string set \<Rightarrow> search_result list \<Rightarrow> js_error + search_result list" where
  "entityLoop engine summaryData entityData searchTerm [] processedEpisodes results =
     Inr results"
| "entityLoop engine summaryData entityData searchTerm (entity # rest) processedEpisodes results =
     (case entityMatch engine searchTerm entity of
        Inl err \<Rightarrow> Inl err
      | Inr None \<Rightarrow>
          entityLoop engine summaryData entityData searchTerm rest processedEpisodes results
      | Inr (Some (matchType, matchDetails, relevanceScore)) \<Rightarrow>
          (if e_episode_id entity \<notin> processedEpisodes
           then (case findEpisodeById summaryData (e_episode_id entity) of
                   None \<Rightarrow>
                     entityLoop engine summaryData entityData searchTerm rest
                       (insert (e_episode_id entity) processedEpisodes) results
                 | Some ep \<Rightarrow>
                     entityLoop engine summaryData entityData searchTerm rest
                       (insert (e_episode_id entity) processedEpisodes)
                       (results @ [(resultRow entityData ep matchType matchDetails relevanceScore)
                                     \<lparr> s_episode_id := e_episode_id entity \<rparr>]))
           else entityLoop engine summaryData entityData searchTerm rest
                  processedEpisodes results))"

definition searchInEntities ::
  "regex_engine \<Rightarrow> podcast_data option \<Rightarrow> graph_output option \<Rightarrow> string
     \<Rightarrow> js_error + search_result list" where
  "searchInEntities engine summaryData entityData searchTerm =
     (case entityData of
        None \<Rightarrow> Inr []
      | Some ed \<Rightarrow>
          entityLoop engine summaryData entityData searchTerm (g_all_entities ed) {} [])"

subsection \<open>Searching the relationships\<close>

text \<open>
  One round of the loop of \<open>searchInRelationships\<close>: the first test is on the
  description, the second, taken only when the first fails, on the relationship type.
  The row's match type is \<open>relationship_description\<close> on both paths; details and score
  come from the field that matched.
\<close>

definition relationshipMatch ::
  "regex_engine \<Rightarrow> string \<Rightarrow> relationship \<Rightarrow> js_error + (string \<times> rat) option" where
  "relationshipMatch engine searchTerm rel =
     (let lowerSearchTerm = toLowerCase searchTerm
      in if r_description rel \<noteq> [] \<and>
            strIncludes (toLowerCase (r_description rel)) lowerSearchTerm
         then (case calculateRelevanceScore engine searchTerm (r_description rel)
                      ''relationship_description'' of
                 Inl err \<Rightarrow> Inl err
               | Inr relevanceScore \<Rightarrow>
                   Inr (Some (
                     ''Found '' @ dq @ searchTerm @ dq @ '' in relationship: '' @ dq @
                       r_entity1_name rel @ dq @ '' '' @ r_relationship_type rel @ '' '' @ dq @
                       r_entity2_name rel @ dq @ '' - '' @ r_description rel,
                     relevanceScore)))
         else if strIncludes (toLowerCase (r_relationship_type rel)) lowerSearchTerm
         then (case calculateRelevanceScore engine searchTerm (r_relationship_type rel)
                      ''relationship_description'' of
                 Inl err \<Rightarrow> Inl err
               | Inr relevanceScore \<Rightarrow>
                   Inr (Some (
                     ''Found '' @ dq @ searchTerm @ dq @ '' in relationship type: '' @ dq @
                       r_entity1_name rel @ dq @ '' '' @ r_relationship_type rel @ '' '' @ dq @
                       r_entity2_name rel @ dq,
                     relevanceScore)))
         else Inr None)"

fun relationshipLoop ::
  "regex_engine \<Rightarrow> podcast_data option \<Rightarrow> graph_output option \<Rightarrow> string \<Rightarrow> relationship list
     \<Rightarrow> string set \<Rightarrow> search_result list \<Rightarrow> js_error + search_result list" where
  "relationshipLoop engine summaryData entityData searchTerm [] processedEpisodes results =
     Inr results"
| "relationshipLoop engine summaryData entityData searchTerm (rel # rest) processedEpisodes
       results =
     (case relationshipMatch engine searchTerm rel of
        Inl err \<Rightarrow> Inl err
      | Inr None \<Rightarrow>
          relationshipLoop engine summaryData entityData searchTerm rest processedEpisodes results
      | Inr (Some (matchDetails, relevanceScore)) \<Rightarrow>
          (if r_episode_id rel \<notin> processedEpisodes
           then (case findEpisodeById summaryData (r_episode_id rel) of
                   None \<Rightarrow>
                     relationshipLoop engine summaryData entityData searchTerm rest
                       (insert (r_episode_id rel) processedEpisodes) results
                 | Some ep \<Rightarrow>
                     relationshipLoop engine summaryData entityData searchTerm rest
                       (insert (r_episode_id rel) processedEpisodes)
                       (results @ [(resultRow entityData ep ''relationship_description''
                                      matchDetails relevanceScore)
                                     \<lparr> s_episode_id := r_episode_id rel \<rparr>]))
           else relationshipLoop engine summaryData entityData searchTerm rest
                  processedEpisodes results))"

definition searchInRelationships ::
  "regex_engine \<Rightarrow> podcast_data option \<Rightarrow> graph_output option \<Rightarrow> string
     \<Rightarrow> js_error + search_result list" where
  "searchInRelationships engine summaryData entityData searchTerm =
     (case entityData of
        None \<Rightarrow> Inr []
      | Some ed \<Rightarrow>
          relationshipLoop engine summaryData entityData searchTerm (g_all_relationships ed)
            {} [])"

subsection \<open>Aggregation\<close>

text \<open>
  \<open>uniqueResults\<close> is a map from episode id to row that keeps the order in which the keys
  were first set; setting an existing key replaces the row in place.
\<close>

fun mapSet :: "string \<Rightarrow> 'v \<Rightarrow> (string \<times> 'v) list \<Rightarrow> (string \<times> 'v) list" where
  "mapSet k v [] = [(k, v)]"
| "mapSet k v ((k', v') # m) = (if k = k' then (k, v) # m else (k', v') # mapSet k v m)"

definition dedupStep ::
  "search_result \<Rightarrow> (string \<times> search_result) list \<Rightarrow> (string \<times> search_result) list" where
  "dedupStep result uniqueResults =
     (case map_of uniqueResults (s_episode_id result) of
        None \<Rightarrow> mapSet (s_episode_id result) result uniqueResults
      | Some existing \<Rightarrow>
          (if s_relevance_score result > s_relevance_score existing
           then mapSet (s_episode_id result) result uniqueResults
           else uniqueResults))"

definition deduplicate :: "search_result list \<Rightarrow> (string \<times> search_result) list" where
  "deduplicate allResults = fold dedupStep allResults []"

text \<open>
  The comparator \<open>b.relevance_score - a.relevance_score\<close> of a stable sort: descending
  score, ties in the order of the map.
\<close>

definition sortByScore :: "search_result list \<Rightarrow> search_result list" where
  "sortByScore rows = sort_key (\<lambda>row. - s_relevance_score row) rows"

definition allResultsOf ::
  "regex_engine \<Rightarrow> podcast_data option \<Rightarrow> graph_output option \<Rightarrow> string
     \<Rightarrow> js_error + search_result list" where
  "allResultsOf engine summaryData entityData searchTerm =
     (case searchInEpisodeText engine summaryData entityData searchTerm of
        Inl err \<Rightarrow> Inl err
      | Inr episodeResults \<Rightarrow>
          (case searchInEntities engine summaryData entityData searchTerm of
             Inl err \<Rightarrow> Inl err
           | Inr entityResults \<Rightarrow>
               (case searchInRelationships engine summaryData entityData searchTerm of
                  Inl err \<Rightarrow> Inl err
                | Inr relationshipResults \<Rightarrow>
                    Inr (episodeResults @ entityResults @ relationshipResults))))"

definition search ::
  "regex_engine \<Rightarrow> podcast_data option \<Rightarrow> graph_output option \<Rightarrow> string
     \<Rightarrow> js_error + search_result list" where
  "search engine summaryData entityData searchTerm =
     (case allResultsOf engine summaryData entityData searchTerm of
        Inl err \<Rightarrow> Inl err
      | Inr allResults \<Rightarrow> Inr (sortByScore (map snd (deduplicate allResults))))"

section \<open>Episode id mapper\<close>

text \<open>
  The episode of the parser, with the fields the mapper reads, and the three maps of
  \<open>EpisodeIdMapper\<close>. A number, a string or an optional field is truthy when it is
  present and is neither \<open>0\<close> nor the empty string.
\<close>

record parsed_episode =
  pe_title :: string
  pe_url :: string
  pe_date :: string
  pe_episode_number :: "int option"

record graph_episode_data =
  ge_episode_id :: string
  ge_episode_title :: string
  ge_episode_number :: "int option"
  ge_date :: "string option"
  ge_url :: "string option"

record id_mapper =
  existingIds :: "string \<rightharpoonup> string"
  episodeNumberToId :: "int \<rightharpoonup> string"
  titleToId :: "string \<rightharpoonup> string"

definition truthyNum :: "int option \<Rightarrow> bool" where
  "truthyNum n = (case n of None \<Rightarrow> False | Some k \<Rightarrow> k \<noteq> 0)"

definition truthyStr :: "string option \<Rightarrow> bool" where
  "truthyStr s = (case s of None \<Rightarrow> False | Some t \<Rightarrow> t \<noteq> [])"

text \<open>
  \<open>normalizeTitle\<close>: lower case, then every character that is neither a word character
  (\<open>[A-Za-z0-9_]\<close>) nor white space is removed, every run of white space becomes one
  space, and white space at both ends is trimmed.
\<close>

definition wordChar :: "char \<Rightarrow> bool" where
  "wordChar c =
     (let n = (of_char c :: nat)
      in (48 \<le> n \<and> n \<le> 57) \<or> (65 \<le> n \<and> n \<le> 90) \<or> n = 95 \<or> (97 \<le> n \<and> n \<le> 122))"

definition spaceChar :: "char \<Rightarrow> bool" where
  "spaceChar c =
     (let n = (of_char c :: nat) in (9 \<le> n \<and> n \<le> 13) \<or> n = 32 \<or> n = 160)"

function collapseSpaces :: "string \<Rightarrow> string" where
  "collapseSpaces [] = []"
| "collapseSpaces (c # cs) =
     (if spaceChar c then CHR '' '' # collapseSpaces (dropWhile spaceChar cs)
      else c # collapseSpaces cs)"
  by pat_completeness auto
termination
  by (relation "measure length") (auto simp: less_Suc_eq_le length_dropWhile_le)

definition trim :: "string \<Rightarrow> string" where
  "trim s = rev (dropWhile spaceChar (rev (dropWhile spaceChar s)))"

definition normalizeTitle :: "string \<Rightarrow> string" where
  "normalizeTitle title =
     trim (collapseSpaces (filter (\<lambda>c. wordChar c \<or> spaceChar c) (toLowerCase title)))"

text \<open>Decimal digits of an integer, as the template string prints an episode number.\<close>

fun showNat :: "nat \<Rightarrow> string" where
  "showNat n = (if n < 10 then [char_of (48 + n)] else showNat (n div 10) @ [char_of (48 + n mod 10)])"

definition showInt :: "int \<Rightarrow> string" where
  "showInt k = (if k < 0 then CHR ''-'' # showNat (nat (- k)) else showNat (nat k))"

text \<open>
  \<open>generateEpisodeId\<close> draws a fresh \<open>uuidv4()\<close> and, for an episode without number,
  prints the time stamp of its date. Both come from outside: \<open>uuid\<close> is the string drawn
  and \<open>timestamp\<close> the printed time stamp.
\<close>

definition generateEpisodeId :: "string \<Rightarrow> string \<Rightarrow> parsed_episode \<Rightarrow> string" where
  "generateEpisodeId uuid timestamp ep =
     (if truthyNum (pe_episode_number ep)
      then ''ep_'' @ showInt (the (pe_episode_number ep)) @ ''_'' @ take 8 uuid
      else ''ep_'' @ timestamp @ ''_'' @ take 8 uuid)"

text \<open>One episode of a graph file in \<open>loadExistingIds\<close>, and the loop over all files.\<close>

definition loadEpisode :: "graph_episode_data \<Rightarrow> id_mapper \<Rightarrow> id_mapper" where
  "loadEpisode ge st =
     (let st1 = (if truthyNum (ge_episode_number ge)
                 then st\<lparr> episodeNumberToId :=
                        (episodeNumberToId st)(the (ge_episode_number ge) \<mapsto> ge_episode_id ge) \<rparr>
                 else st);
          st2 = st1\<lparr> titleToId :=
                   (titleToId st1)(normalizeTitle (ge_episode_title ge) \<mapsto> ge_episode_id ge) \<rparr>
      in if truthyStr (ge_url ge)
         then st2\<lparr> existingIds := (existingIds st2)(the (ge_url ge) \<mapsto> ge_episode_id ge) \<rparr>
         else st2)"

definition emptyMapper :: id_mapper where
  "emptyMapper = \<lparr> existingIds = Map.empty, episodeNumberToId = Map.empty,
                    titleToId = Map.empty \<rparr>"

definition loadExistingIds :: "graph_episode_data list list \<Rightarrow> id_mapper" where
  "loadExistingIds graphFiles = fold (\<lambda>file st. fold loadEpisode file st) graphFiles emptyMapper"

text \<open>\<open>findOrCreateEpisodeId\<close> returns the id and the mapper with its caches updated.\<close>

definition findOrCreateEpisodeId ::
  "string \<Rightarrow> string \<Rightarrow> parsed_episode \<Rightarrow> id_mapper \<Rightarrow> string \<times> id_mapper" where
  "findOrCreateEpisodeId uuid timestamp ep st =
     (if truthyNum (pe_episode_number ep) \<and>
         episodeNumberToId st (the (pe_episode_number ep)) \<noteq> None
      then (the (episodeNumberToId st (the (pe_episode_number ep))), st)
      else if pe_url ep \<noteq> [] \<and> existingIds st (pe_url ep) \<noteq> None
      then (the (existingIds st (pe_url ep)), st)
      else (let normalizedTitle = normalizeTitle (pe_title ep)
            in if titleToId st normalizedTitle \<noteq> None
               then (the (titleToId st normalizedTitle), st)
               else (let newId = generateEpisodeId uuid timestamp ep;
                         st1 = (if truthyNum (pe_episode_number ep)
                                then st\<lparr> episodeNumberToId :=
                                       (episodeNumberToId st)(the (pe_episode_number ep) \<mapsto> newId) \<rparr>
                                else st);
                         st2 = st1\<lparr> titleToId := (titleToId st1)(normalizedTitle \<mapsto> newId) \<rparr>;
                         st3 = (if pe_url ep \<noteq> []
                                then st2\<lparr> existingIds := (existingIds st2)(pe_url ep \<mapsto> newId) \<rparr>
                                else st2)
                     in (newId, st3))))"

section \<open>Ingestion of an extraction response\<close>

text \<open>
  The response of the extraction model is parsed JSON. A field of a payload is modelled
  with the type the prompt asks for, and \<open>None\<close> when the field is absent or \<open>null\<close>.
\<close>

record entity_payload =
  p_name :: "string option"
  p_type :: "string option"
  p_context :: "string option"
  p_amazon_searchable :: "bool option"
  p_amazon_keywords :: "string list option"
  p_confidence_score :: "rat option"

record relationship_payload =
  q_entity1_name :: "string option"
  q_entity2_name :: "string option"
  q_relationship_type :: "string option"
  q_description :: "string option"
  q_confidence_score :: "rat option"

record extracted_data =
  xd_entities :: "entity_payload list option"
  xd_relationships :: "relationship_payload list option"

definition alnumLower :: "char \<Rightarrow> bool" where
  "alnumLower c =
     (let n = (of_char c :: nat) in (48 \<le> n \<and> n \<le> 57) \<or> (97 \<le> n \<and> n \<le> 122))"

definition createEntityId :: "string \<Rightarrow> string \<Rightarrow> string \<Rightarrow> string" where
  "createEntityId name type episodeId =
     (let normalized = filter alnumLower (toLowerCase name)
      in type @ ''_'' @ normalized @ ''_'' @ take 8 episodeId)"

text \<open>The default order of \<open>sort()\<close> on strings: by code units, a proper prefix first.\<close>

fun strLessEq :: "string \<Rightarrow> string \<Rightarrow> bool" where
  "strLessEq [] t = True"
| "strLessEq (c # cs) [] = False"
| "strLessEq (c # cs) (d # ds) =
     (if (of_char c :: nat) < of_char d then True
      else if (of_char d :: nat) < of_char c then False
      else strLessEq cs ds)"

definition createRelationshipId :: "string \<Rightarrow> string \<Rightarrow> string \<Rightarrow> string" where
  "createRelationshipId uuid entity1Id entity2Id =
     (let sorted = (if strLessEq entity1Id entity2Id then [entity1Id, entity2Id]
                    else [entity2Id, entity1Id])
      in ''rel_'' @ sorted ! 0 @ ''_'' @ sorted ! 1 @ ''_'' @ take 8 uuid)"

definition findEntityId :: "string \<Rightarrow> entity list \<Rightarrow> string option" where
  "findEntityId entityName entities =
     (case find (\<lambda>e. toLowerCase (e_name e) = toLowerCase entityName) entities of
        None \<Rightarrow> None
      | Some found \<Rightarrow> Some (e_id found))"

text \<open>
  The entity built from a payload that has passed the test on name and type, with the
  defaults of the \<open>||\<close> operators.
\<close>

definition orElse :: "rat option \<Rightarrow> rat \<Rightarrow> rat" where
  "orElse v d = (case v of None \<Rightarrow> d | Some x \<Rightarrow> if x = 0 then d else x)"

definition entityOfPayload :: "string \<Rightarrow> entity_payload \<Rightarrow> entity" where
  "entityOfPayload episodeId entityData =
     \<lparr> e_id = createEntityId (the (p_name entityData)) (the (p_type entityData)) episodeId,
       e_episode_id = episodeId,
       e_name = the (p_name entityData),
       e_type = the (p_type entityData),
       e_context = (case p_context entityData of None \<Rightarrow> [] | Some c \<Rightarrow> c),
       e_amazon_searchable =
         (case p_amazon_searchable entityData of None \<Rightarrow> False | Some b \<Rightarrow> b),
       e_amazon_keywords = p_amazon_keywords entityData,
       e_confidence_score = Some (orElse (p_confidence_score entityData) (4 / 5)) \<rparr>"

text \<open>
  The entity loop: a payload without truthy name or type is skipped; an accepted entity
  is pushed and entered into the global cache under its lower-cased name and type unless
  the key is there already.
\<close>

fun entityLoopIngest ::
  "string \<Rightarrow> entity_payload list \<Rightarrow> entity list \<Rightarrow> (string \<rightharpoonup> entity)
     \<Rightarrow> entity list \<times> (string \<rightharpoonup> entity)" where
  "entityLoopIngest episodeId [] entities globalEntities = (entities, globalEntities)"
| "entityLoopIngest episodeId (entityData # rest) entities globalEntities =
     (if \<not> truthyStr (p_name entityData) \<or> \<not> truthyStr (p_type entityData)
      then entityLoopIngest episodeId rest entities globalEntities
      else (let entity = entityOfPayload episodeId entityData;
                globalKey = toLowerCase (e_name entity) @ ''_'' @ e_type entity
            in entityLoopIngest episodeId rest (entities @ [entity])
                 (if globalEntities globalKey = None
                  then globalEntities(globalKey \<mapsto> entity) else globalEntities)))"

text \<open>
  The relationship loop: both names must be truthy and must be found among the entities
  of this call; \<open>uuid k\<close> is the string drawn by the \<open>k\<close>-th call of \<open>uuidv4()\<close>, one call
  for each relationship stored.
\<close>

definition relationshipOfPayload ::
  "string \<Rightarrow> string \<Rightarrow> string \<Rightarrow> string \<Rightarrow> relationship_payload \<Rightarrow> relationship" where
  "relationshipOfPayload uuid episodeId entity1Id entity2Id relData =
     \<lparr> r_id = createRelationshipId uuid entity1Id entity2Id,
       r_episode_id = episodeId,
       r_entity1_id = entity1Id,
       r_entity1_name = the (q_entity1_name relData),
       r_entity2_id = entity2Id,
       r_entity2_name = the (q_entity2_name relData),
       r_relationship_type =
         (if truthyStr (q_relationship_type relData) then the (q_relationship_type relData)
          else ''related_to''),
       r_description = (case q_description relData of None \<Rightarrow> [] | Some d \<Rightarrow> d),
       r_confidence_score = Some (orElse (q_confidence_score relData) (4 / 5)),
       r_is_cross_episode = Some False \<rparr>"

fun relationshipLoopIngest ::
  "(nat \<Rightarrow> string) \<Rightarrow> string \<Rightarrow> entity list \<Rightarrow> relationship_payload list
     \<Rightarrow> relationship list \<Rightarrow> relationship list" where
  "relationshipLoopIngest uuid episodeId entities [] relationships = relationships"
| "relationshipLoopIngest uuid episodeId entities (relData # rest) relationships =
     (if \<not> truthyStr (q_entity1_name relData) \<or> \<not> truthyStr (q_entity2_name relData)
      then relationshipLoopIngest uuid episodeId entities rest relationships
      else (let entity1Id = findEntityId (the (q_entity1_name relData)) entities;
                entity2Id = findEntityId (the (q_entity2_name relData)) entities
            in if truthyStr entity1Id \<and> truthyStr entity2Id
               then relationshipLoopIngest uuid episodeId entities rest
                      (relationships @
                         [relationshipOfPayload (uuid (length relationships)) episodeId
                            (the entity1Id) (the entity2Id) relData])
               else relationshipLoopIngest uuid episodeId entities rest relationships))"

definition processExtractedEntities ::
  "(nat \<Rightarrow> string) \<Rightarrow> extracted_data \<Rightarrow> string \<Rightarrow> (string \<rightharpoonup> entity)
     \<Rightarrow> (entity list \<times> relationship list) \<times> (string \<rightharpoonup> entity)" where
  "processExtractedEntities uuid extractedData episodeId globalEntities =
     (let (entities, globalEntities') =
            (case xd_entities extractedData of
               None \<Rightarrow> ([], globalEntities)
             | Some payloads \<Rightarrow> entityLoopIngest episodeId payloads [] globalEntities);
          relationships =
            (case xd_relationships extractedData of
               None \<Rightarrow> []
             | Some payloads \<Rightarrow> relationshipLoopIngest uuid episodeId entities payloads [])
      in ((entities, relationships), globalEntities'))"

section \<open>Example data\<close>


definition founded_rel :: relationship where
  "founded_rel = \<lparr> r_id = ''rel_1'', r_episode_id = ''ep1'', r_entity1_id = ''e1'',
       r_entity1_name = ''Amazon'', r_entity2_id = ''e2'', r_entity2_name = ''Jeff Bezos'',
       r_relationship_type = ''founded_by'',
       r_description = ''Founded in 1994; founded in a garage'',
       r_confidence_score = None, r_is_cross_episode = None \<rparr>"

text \<open>
  An engine for the examples. No example hands it a pattern: their queries have no
  syntax character, or fail before the engine is asked.
\<close>

definition noEngine :: regex_engine where
  "noEngine pat text = Inl SyntaxError"

text \<open>
  A stored relationship resolves in an episode when it carries the episode's id and each
  of its two entity ids is the id of an entity of that episode whose lower-cased name
  is the lower-cased name the relationship gives.
\<close>

definition resolvedIn :: "string \<Rightarrow> entity list \<Rightarrow> relationship \<Rightarrow> bool" where
  "resolvedIn episodeId entities r =
     (r_episode_id r = episodeId \<and>
      (\<exists>e1 \<in> set entities. e_episode_id e1 = episodeId \<and> e_id e1 = r_entity1_id r \<and>
           toLowerCase (e_name e1) = toLowerCase (r_entity1_name r)) \<and>
      (\<exists>e2 \<in> set entities. e_episode_id e2 = episodeId \<and> e_id e2 = r_entity2_id r \<and>
           toLowerCase (e_name e2) = toLowerCase (r_entity2_name r)))"

text \<open>Both names of a relationship payload are truthy and found by \<open>findEntityId\<close>.\<close>

definition namesFound :: "entity list \<Rightarrow> relationship_payload \<Rightarrow> bool" where
  "namesFound entities p =
     (truthyStr (q_entity1_name p) \<and> truthyStr (q_entity2_name p) \<and>
      findEntityId (the (q_entity1_name p)) entities \<noteq> None \<and>
      findEntityId (the (q_entity2_name p)) entities \<noteq> None)"

text \<open>
  Two episodes that share one book among \<open>k + 1\<close> entities each, for the threshold
  of the linker, and an episode whose first entity matches a query by its context and
  whose second entity matches it by its name.
\<close>

definition shared_book :: entity where
  "shared_book = \<lparr> e_id = ''m1'', e_episode_id = ''epA'', e_name = ''Zero to One'',
       e_type = ''media'', e_context = ''a book'', e_amazon_searchable = True,
       e_amazon_keywords = None, e_confidence_score = None \<rparr>"

definition filler :: "string \<Rightarrow> entity" where
  "filler name = \<lparr> e_id = name, e_episode_id = ''epX'', e_name = name,
       e_type = ''event'', e_context = [], e_amazon_searchable = False,
       e_amazon_keywords = None, e_confidence_score = None \<rparr>"

definition padded_episode :: "string \<Rightarrow> string \<Rightarrow> nat \<Rightarrow> episode_data" where
  "padded_episode episodeId fillerName k =
     \<lparr> d_episode_id = episodeId, d_episode_title = episodeId, d_episode_number = None,
       d_date = None, d_url = None,
       d_entities = shared_book # replicate k (filler fillerName), d_relationships = [] \<rparr>"

definition garage_episode :: episode where
  "garage_episode = \<lparr> ep_title = ''Garage Days'', ep_text = ''early years'',
       ep_episode_number = None, ep_date = None, ep_url = None, ep_episode_id = ''ep3'' \<rparr>"

definition garage_graph :: graph_output where
  "garage_graph = \<lparr> g_episodes = [],
       g_all_entities =
         [\<lparr> e_id = ''e3'', e_episode_id = ''ep3'', e_name = ''Amazon'', e_type = ''place'',
             e_context = ''founded by Bezos'', e_amazon_searchable = False,
             e_amazon_keywords = None, e_confidence_score = None \<rparr>,
          \<lparr> e_id = ''e4'', e_episode_id = ''ep3'', e_name = ''Jeff Bezos'', e_type = ''person'',
             e_context = ''founder'', e_amazon_searchable = False,
             e_amazon_keywords = None, e_confidence_score = None \<rparr>],
       g_all_relationships = [], g_amazon_products = [] \<rparr>"




definition sample_response :: extracted_data where
  "sample_response =
     \<lparr> xd_entities = Some
         [\<lparr> p_name = Some ''Jeff Bezos'', p_type = Some ''person'', p_context = None,
             p_amazon_searchable = None, p_amazon_keywords = None,
             p_confidence_score = Some 0 \<rparr>,
          \<lparr> p_name = Some ''Amazon'', p_type = Some ''place'', p_context = Some ''company'',
             p_amazon_searchable = Some False, p_amazon_keywords = None,
             p_confidence_score = Some (9 / 10) \<rparr>,
          \<lparr> p_name = Some ''Nameless'', p_type = None, p_context = None,
             p_amazon_searchable = None, p_amazon_keywords = None,
             p_confidence_score = None \<rparr>],
       xd_relationships = Some
         [\<lparr> q_entity1_name = Some ''Amazon'', q_entity2_name = Some ''jeff bezos'',
             q_relationship_type = Some ''founded_by'', q_description = None,
             q_confidence_score = None \<rparr>,
          \<lparr> q_entity1_name = Some ''Amazon'', q_entity2_name = Some ''Blue Origin'',
             q_relationship_type = None, q_description = None,
             q_confidence_score = None \<rparr>] \<rparr>"

definition sample_uuid :: "nat \<Rightarrow> string" where
  "sample_uuid k = ''123e4567-e89b-12d3-a456-426614174000''"

text \<open>A graph file with one episode, and four episodes of a later parser run.\<close>

definition known_episode :: graph_episode_data where
  "known_episode = \<lparr> ge_episode_id = ''ep_12_1a2b3c4d'',
       ge_episode_title = ''#12: The Bezos Letters!'', ge_episode_number = Some 12,
       ge_date = None, ge_url = Some ''https://example.org/12'' \<rparr>"

definition same_number :: parsed_episode where
  "same_number = \<lparr> pe_title = ''Renamed'', pe_url = ''https://example.org/moved'',
       pe_date = ''2024-01-01'', pe_episode_number = Some 12 \<rparr>"

definition same_url :: parsed_episode where
  "same_url = \<lparr> pe_title = ''Renamed'', pe_url = ''https://example.org/12'',
       pe_date = ''2024-01-01'', pe_episode_number = Some 99 \<rparr>"

definition same_title :: parsed_episode where
  "same_title = \<lparr> pe_title = ''  #12 the  bezos LETTERS'', pe_url = ''https://example.org/moved'',
       pe_date = ''2024-01-01'', pe_episode_number = None \<rparr>"

definition new_episode :: parsed_episode where
  "new_episode = \<lparr> pe_title = ''Another One'', pe_url = ''https://example.org/13'',
       pe_date = ''2024-01-01'', pe_episode_number = Some 13 \<rparr>"



section \<open>Properties of the cross-episode linker\<close>











text \<open>
  The threshold on examples: with ten entities in each episode and one shared book the
  strength is exactly \<open>0.3\<close> and no record is emitted; with nine entities it is
  \<open>1/3\<close> and the record is emitted.
\<close>

lemma threshold_boundary_example:
  "detectCrossEpisodeRelationships [padded_episode ''epA'' ''a'' 9, padded_episode ''epB'' ''b'' 9]
     = [] \<and>
   calculateRelationshipStrength [shared_book]
     (padded_episode ''epA'' ''a'' 9) (padded_episode ''epB'' ''b'' 9) = Num (3 / 10) \<and>
   map (\<lambda>x. (x_shared_entities x, x_relationship_strength x, x_common_themes x))
     (detectCrossEpisodeRelationships
        [padded_episode ''epA'' ''a'' 8, padded_episode ''epB'' ''b'' 8])
     = [([''Zero to One''], Num (1 / 3), [''Business Literature'', ''Recommended Products''])]"
  by code_simp

section \<open>Properties of the relevance score\<close>

lemma strIncludes_Nil [simp]: "strIncludes s []"
  by (cases s) (simp_all add: startsWith_def)

lemma regexMatchCount_plain:
  "\<not> list_ex syntaxChar pat \<Longrightarrow>
   regexMatchCount engine pat text =
     Inr (if pat = [] then length text + 1 else countMatches pat text)"
  by (simp add: regexMatchCount_def)

lemma regexMatchCount_nothing_to_repeat:
  "list_ex syntaxChar pat \<Longrightarrow> list_all (\<lambda>c. syntaxChar c = quantifierChar c) pat \<Longrightarrow>
   nothingToRepeat NeedAtom pat \<Longrightarrow> regexMatchCount engine pat text = Inl SyntaxError"
  by (simp add: regexMatchCount_def)



lemma baseScoreOf_order:
  "baseScoreOf ''episode_title'' > baseScoreOf ''entity_name'' \<and>
   baseScoreOf ''entity_name'' > baseScoreOf ''relationship_description'' \<and>
   baseScoreOf ''relationship_description'' > baseScoreOf ''entity_context'' \<and>
   baseScoreOf ''entity_context'' > baseScoreOf ''episode_text''"
  by (simp add: baseScoreOf_def)

lemma exactScore_ge_1: "1 \<le> exactScore mt n len"
  by (simp add: exactScore_def Let_def)



text \<open>The bonus grows with the number of matches, the penalty with the length.\<close>

lemma exactScore_mono_matches:
  assumes "n \<le> m"
  shows "exactScore mt n len \<le> exactScore mt m len"
proof -
  define a where "a = rat_of_nat n * 10"
  define b where "b = rat_of_nat m * 10"
  have "a \<le> b" using assms by (simp add: a_def b_def)
  then have "max 1 (baseScoreOf mt + min a 50 - max 0 ((rat_of_nat len - 100) / 100))
           \<le> max 1 (baseScoreOf mt + min b 50 - max 0 ((rat_of_nat len - 100) / 100))"
    by linarith
  then show ?thesis by (simp add: exactScore_def Let_def a_def b_def)
qed

lemma exactScore_antimono_length:
  assumes "len \<le> len'"
  shows "exactScore mt n len' \<le> exactScore mt n len"
proof -
  define a where "a = (rat_of_nat len - 100) / 100"
  define b where "b = (rat_of_nat len' - 100) / 100"
  have "a \<le> b" using assms by (simp add: a_def b_def divide_right_mono)
  then have "max 1 (baseScoreOf mt + min (rat_of_nat n * 10) 50 - max 0 b)
           \<le> max 1 (baseScoreOf mt + min (rat_of_nat n * 10) 50 - max 0 a)"
    by linarith
  then show ?thesis by (simp add: exactScore_def Let_def a_def b_def)
qed

lemma exact_branch:
  assumes "strIncludes (toLowerCase text) (toLowerCase q)"
  shows "calculateRelevanceScore engine q text mt =
           (case regexMatchCount engine (toLowerCase q) (toLowerCase text) of
              Inl err \<Rightarrow> Inl err
            | Inr matches \<Rightarrow> Inr (exactScore mt matches (length text)))"
  using assms by (simp add: calculateRelevanceScore_def Let_def)

lemma exact_match_score_plain:
  assumes "strIncludes (toLowerCase text) (toLowerCase q)"
      and "\<not> list_ex syntaxChar (toLowerCase q)"
  shows "calculateRelevanceScore engine q text mt =
           Inr (max 1 (baseScoreOf mt
                  + min (of_nat (if toLowerCase q = [] then length text + 1
                                 else countMatches (toLowerCase q) (toLowerCase text)) * 10) 50
                  - max 0 ((of_nat (length text) - 100) / 100)))"
  using assms
  by (simp add: exact_branch regexMatchCount_plain exactScore_def Let_def toLowerCase_def)

text \<open>
  C3. For a query without syntax character the score of an exact match is
  \<open>max(1, base + bonus - penalty)\<close> (\<open>exact_match_score_plain\<close>), the bases are
  ordered as the claim says (\<open>baseScoreOf_order\<close>) and the score is at least 1
  (\<open>exactScore_ge_1\<close>). The claim speaks of every exact match, and there the function
  fails: the query \<open>c++\<close> occurs in the lower-cased title \<open>learning c++\<close>, the match
  count compiles the query as the pattern \<open>c++\<close>, whose second \<open>+\<close> has nothing to
  repeat, and the call ends with a \<open>SyntaxError\<close> in place of a score.
\<close>

theorem relevance_score_regex_failure:
  "calculateRelevanceScore engine ''c++'' ''Learning C++'' ''episode_title'' = Inl SyntaxError"
proof -
  have i: "strIncludes (toLowerCase ''Learning C++'') (toLowerCase ''c++'')"
    by code_simp
  have a: "list_ex syntaxChar (toLowerCase ''c++'')" by code_simp
  have b: "list_all (\<lambda>c. syntaxChar c = quantifierChar c) (toLowerCase ''c++'')" by code_simp
  have c: "nothingToRepeat NeedAtom (toLowerCase ''c++'')" by code_simp
  show ?thesis
    by (simp only: exact_branch [OF i] regexMatchCount_nothing_to_repeat [OF a b c] sum.case)
qed

subsection \<open>The branch for a field without the whole query\<close>







section \<open>Properties of the aggregation\<close>














text \<open>
  What a candidate is inside the entity search: the first matching entity of an episode.
  Here the first entity matches \<open>bezos\<close> by its context (score 80), the second by
  its name (which would score 100); the row of the episode is the context match.
\<close>

lemma entity_search_first_match_example:
  "map (\<lambda>row. (s_episode_id row, s_match_type row, s_relevance_score row))
     (projr (search noEngine (Some \<lparr> pd_episodes = [garage_episode] \<rparr>) (Some garage_graph)
        ''bezos'')) = [(''ep3'', ''entity_context'', 80)] \<and>
   calculateRelevanceScore noEngine ''bezos'' ''Jeff Bezos'' ''entity_name'' = Inr 100"
  by code_simp

section \<open>Properties of a search with particular queries\<close>

lemma toLowerCase_Nil [simp]: "toLowerCase [] = []"
  by (simp add: toLowerCase_def)

lemma length_toLowerCase [simp]: "length (toLowerCase s) = length s"
  by (simp add: toLowerCase_def)












text \<open>
  C5, as the code has it. The description is tested before the relationship type. For
  a relationship whose description is not empty and contains the query, details and
  score come from the description, whether the type contains the query or not.
\<close>

theorem relationship_description_first:
  assumes "r_description rel \<noteq> []"
      and "strIncludes (toLowerCase (r_description rel)) (toLowerCase searchTerm)"
  shows "relationshipMatch engine searchTerm rel =
           (case calculateRelevanceScore engine searchTerm (r_description rel)
                   ''relationship_description'' of
              Inl err \<Rightarrow> Inl err
            | Inr relevanceScore \<Rightarrow>
                Inr (Some (''Found '' @ dq @ searchTerm @ dq @ '' in relationship: '' @ dq @
                             r_entity1_name rel @ dq @ '' '' @ r_relationship_type rel @ '' '' @ dq @
                             r_entity2_name rel @ dq @ '' - '' @ r_description rel,
                           relevanceScore)))"
proof -
  have first_test: "r_description rel \<noteq> [] \<and>
      strIncludes (toLowerCase (r_description rel)) (toLowerCase searchTerm)"
    using assms by simp
  show ?thesis
    unfolding relationshipMatch_def Let_def using first_test by simp
qed

text \<open>
  The query \<open>founded\<close> occurs twice in the description and once in the type
  \<open>founded_by\<close>; the recorded details are those of the description, with score 100.
\<close>

theorem relationship_description_first_witness:
  "r_description founded_rel \<noteq> [] \<and>
   strIncludes (toLowerCase (r_description founded_rel)) (toLowerCase ''founded'') \<and>
   strIncludes (toLowerCase (r_relationship_type founded_rel)) (toLowerCase ''founded'') \<and>
   relationshipMatch noEngine ''founded'' founded_rel =
     Inr (Some (''Found '' @ dq @ ''founded'' @ dq @ '' in relationship: '' @ dq @
                  ''Amazon'' @ dq @ '' founded_by '' @ dq @ ''Jeff Bezos'' @ dq @
                  '' - Founded in 1994; founded in a garage'', 100))"
proof -
  have a: "r_description founded_rel \<noteq> []" by code_simp
  have b: "strIncludes (toLowerCase (r_description founded_rel)) (toLowerCase ''founded'')"
    by code_simp
  have c: "strIncludes (toLowerCase (r_relationship_type founded_rel)) (toLowerCase ''founded'')"
    by code_simp
  have sc: "calculateRelevanceScore noEngine ''founded'' (r_description founded_rel)
              ''relationship_description'' = Inr 100"
    by code_simp
  have f: "r_entity1_name founded_rel = ''Amazon''" "r_entity2_name founded_rel = ''Jeff Bezos''"
      "r_relationship_type founded_rel = ''founded_by''"
      "r_description founded_rel = ''Founded in 1994; founded in a garage''"
    by (simp_all add: founded_rel_def)
  have "relationshipMatch noEngine ''founded'' founded_rel =
     Inr (Some (''Found '' @ dq @ ''founded'' @ dq @ '' in relationship: '' @ dq @
                  ''Amazon'' @ dq @ '' founded_by '' @ dq @ ''Jeff Bezos'' @ dq @
                  '' - Founded in 1994; founded in a garage'', 100))"
    using relationship_description_first [OF a b, of noEngine] sc by (simp add: f)
  then show ?thesis using a b c by blast
qed

text \<open>
  The claim fails on that relationship: query and type match, the type alone would score
  90, and what is recorded is the description's text and score.
\<close>

theorem type_label_first_counterexample:
  "strIncludes (toLowerCase (r_relationship_type founded_rel)) (toLowerCase ''founded'') \<and>
   strIncludes (toLowerCase (r_description founded_rel)) (toLowerCase ''founded'') \<and>
   calculateRelevanceScore noEngine ''founded'' (r_relationship_type founded_rel)
     ''relationship_description'' = Inr 90 \<and>
   relationshipMatch noEngine ''founded'' founded_rel =
     Inr (Some (''Found '' @ dq @ ''founded'' @ dq @ '' in relationship: '' @ dq @
                  ''Amazon'' @ dq @ '' founded_by '' @ dq @ ''Jeff Bezos'' @ dq @
                  '' - Founded in 1994; founded in a garage'', 100))"
  by code_simp

section \<open>Properties of the episode id mapper\<close>

text \<open>
  A normalised title consists of spaces and of word characters that are their own lower
  case.
\<close>

lemma lowerChar_idem: "lowerChar (lowerChar c) = lowerChar c"
proof -
  have "of_char c < (256::nat)" by simp
  then show ?thesis
    by (auto simp: lowerChar_def Let_def)
qed

lemma set_trim: "set (trim s) \<subseteq> set s"
proof -
  have "set (dropWhile spaceChar (rev (dropWhile spaceChar s))) \<subseteq> set (rev (dropWhile spaceChar s))"
    by (rule set_dropWhileD [THEN subsetI])
  also have "\<dots> \<subseteq> set s" using set_dropWhileD by fastforce
  finally show ?thesis by (simp add: trim_def)
qed

lemma set_collapseSpaces:
  "set (collapseSpaces s) \<subseteq> insert CHR '' '' {c \<in> set s. \<not> spaceChar c}"
proof (induction s rule: collapseSpaces.induct)
  case 1
  show ?case by simp
next
  case (2 c cs)
  show ?case
  proof (cases "spaceChar c")
    case True
    have "set (dropWhile spaceChar cs) \<subseteq> set cs" using set_dropWhileD by fastforce
    then show ?thesis using True "2.IH"(1) [OF True] by auto
  next
    case False
    then show ?thesis using "2.IH"(2) [OF False] by auto
  qed
qed

lemma normalizeTitle_chars:
  assumes "c \<in> set (normalizeTitle title)"
  shows "c = CHR '' '' \<or> (wordChar c \<and> lowerChar c = c)"
proof -
  let ?kept = "filter (\<lambda>c. wordChar c \<or> spaceChar c) (toLowerCase title)"
  have "c \<in> set (collapseSpaces ?kept)"
    using assms set_trim by (auto simp: normalizeTitle_def)
  then have "c = CHR '' '' \<or> (c \<in> set ?kept \<and> \<not> spaceChar c)"
    using set_collapseSpaces [of ?kept] by auto
  then show ?thesis
  proof
    assume "c = CHR '' ''" then show ?thesis by simp
  next
    assume h: "c \<in> set ?kept \<and> \<not> spaceChar c"
    then have w: "wordChar c" by auto
    from h obtain d where "c = lowerChar d" by (auto simp: toLowerCase_def)
    then have "lowerChar c = c" by (simp add: lowerChar_idem)
    with w show ?thesis by simp
  qed
qed

lemma loadEpisode_keys:
  assumes "episodeNumberToId st 0 = None" and "existingIds st [] = None"
  shows "episodeNumberToId (loadEpisode ge st) 0 = None \<and>
         existingIds (loadEpisode ge st) [] = None"
  using assms
  by (auto simp: loadEpisode_def Let_def truthyNum_def truthyStr_def split: option.splits)

lemma fold_loadEpisode_keys:
  "episodeNumberToId st 0 = None \<Longrightarrow> existingIds st [] = None \<Longrightarrow>
   episodeNumberToId (fold loadEpisode graphFile st) 0 = None \<and>
   existingIds (fold loadEpisode graphFile st) [] = None"
proof (induction graphFile arbitrary: st)
  case Nil
  then show ?case by simp
next
  case (Cons ge graphFile)
  have "episodeNumberToId (loadEpisode ge st) 0 = None \<and>
        existingIds (loadEpisode ge st) [] = None"
    using loadEpisode_keys Cons.prems by blast
  then show ?case using Cons.IH [of "loadEpisode ge st"] by simp
qed

lemma fold_files_keys:
  "episodeNumberToId st 0 = None \<Longrightarrow> existingIds st [] = None \<Longrightarrow>
   episodeNumberToId (fold (\<lambda>graphFile st. fold loadEpisode graphFile st) graphFiles st) 0 = None \<and>
   existingIds (fold (\<lambda>graphFile st. fold loadEpisode graphFile st) graphFiles st) [] = None"
proof (induction graphFiles arbitrary: st)
  case Nil
  then show ?case by simp
next
  case (Cons graphFile graphFiles)
  have "episodeNumberToId (fold loadEpisode graphFile st) 0 = None \<and>
        existingIds (fold loadEpisode graphFile st) [] = None"
    using fold_loadEpisode_keys Cons.prems by blast
  then show ?case using Cons.IH [of "fold loadEpisode graphFile st"] by simp
qed

lemma loadExistingIds_keys:
  "episodeNumberToId (loadExistingIds graphFiles) 0 = None \<and>
   existingIds (loadExistingIds graphFiles) [] = None"
  unfolding loadExistingIds_def
  by (rule fold_files_keys) (simp_all add: emptyMapper_def)

lemma findOrCreateEpisodeId_keys:
  assumes "episodeNumberToId st 0 = None" and "existingIds st [] = None"
  shows "episodeNumberToId (snd (findOrCreateEpisodeId uuid timestamp ep st)) 0 = None \<and>
         existingIds (snd (findOrCreateEpisodeId uuid timestamp ep st)) [] = None"
  using assms
  by (auto simp: findOrCreateEpisodeId_def Let_def truthyNum_def split: option.splits)

text \<open>
  C8. In a mapper whose number map has no key 0 and whose URL map has no empty key
  (\<open>loadExistingIds\<close> builds such a mapper and \<open>findOrCreateEpisodeId\<close> keeps it so:
  \<open>loadExistingIds_keys\<close>, \<open>findOrCreateEpisodeId_keys\<close>), the id returned is the id
  stored for the episode number if there is one, else the id stored for the URL if there
  is one, else the id stored for the normalised title if there is one, and only else the
  newly generated id.
\<close>

theorem find_or_create_priority:
  assumes "episodeNumberToId st 0 = None" and "existingIds st [] = None"
  shows "fst (findOrCreateEpisodeId uuid timestamp ep st) =
     (case Option.bind (pe_episode_number ep) (episodeNumberToId st) of
        Some existingId \<Rightarrow> existingId
      | None \<Rightarrow>
          (case existingIds st (pe_url ep) of
             Some existingId \<Rightarrow> existingId
           | None \<Rightarrow>
               (case titleToId st (normalizeTitle (pe_title ep)) of
                  Some existingId \<Rightarrow> existingId
                | None \<Rightarrow> generateEpisodeId uuid timestamp ep)))"
proof (cases "pe_episode_number ep")
  case None
  show ?thesis
  proof (cases "pe_url ep = []")
    case True
    then show ?thesis using None assms
      by (auto simp: findOrCreateEpisodeId_def Let_def truthyNum_def split: option.splits)
  next
    case False
    then show ?thesis using None
      by (auto simp: findOrCreateEpisodeId_def Let_def truthyNum_def split: option.splits)
  qed
next
  case (Some n)
  show ?thesis
  proof (cases "n = 0")
    case True
    show ?thesis
    proof (cases "pe_url ep = []")
      case e: True
      then show ?thesis using Some True assms
        by (auto simp: findOrCreateEpisodeId_def Let_def truthyNum_def split: option.splits)
    next
      case e: False
      then show ?thesis using Some True assms
        by (auto simp: findOrCreateEpisodeId_def Let_def truthyNum_def split: option.splits)
    qed
  next
    case False
    show ?thesis
    proof (cases "pe_url ep = []")
      case e: True
      then show ?thesis using Some False assms
        by (auto simp: findOrCreateEpisodeId_def Let_def truthyNum_def split: option.splits)
    next
      case e: False
      then show ?thesis using Some False assms
        by (auto simp: findOrCreateEpisodeId_def Let_def truthyNum_def split: option.splits)
    qed
  qed
qed

text \<open>
  A mapper loaded from one known episode: a match by number, by URL, by normalised
  title, and an episode that matches nothing and gets a new id.
\<close>

theorem find_or_create_priority_witness:
  "episodeNumberToId (loadExistingIds [[known_episode]]) 0 = None \<and>
   existingIds (loadExistingIds [[known_episode]]) [] = None \<and>
   fst (findOrCreateEpisodeId ''123e4567-e89b'' ''1704067200000'' same_number
          (loadExistingIds [[known_episode]])) = ''ep_12_1a2b3c4d'' \<and>
   fst (findOrCreateEpisodeId ''123e4567-e89b'' ''1704067200000'' same_url
          (loadExistingIds [[known_episode]])) = ''ep_12_1a2b3c4d'' \<and>
   fst (findOrCreateEpisodeId ''123e4567-e89b'' ''1704067200000'' same_title
          (loadExistingIds [[known_episode]])) = ''ep_12_1a2b3c4d'' \<and>
   fst (findOrCreateEpisodeId ''123e4567-e89b'' ''1704067200000'' new_episode
          (loadExistingIds [[known_episode]])) = ''ep_13_123e4567''"
proof -
  let ?st = "loadExistingIds [[known_episode]]"
  have k: "episodeNumberToId ?st 0 = None" "existingIds ?st [] = None"
    using loadExistingIds_keys [of "[[known_episode]]"] by simp_all
  have n: "episodeNumberToId ?st 12 = Some ''ep_12_1a2b3c4d''" "episodeNumberToId ?st 99 = None"
      "episodeNumberToId ?st 13 = None"
    by (simp_all add: loadExistingIds_def loadEpisode_def known_episode_def emptyMapper_def
          truthyNum_def truthyStr_def Let_def)
  have u: "existingIds ?st ''https://example.org/12'' = Some ''ep_12_1a2b3c4d''"
      "existingIds ?st ''https://example.org/moved'' = None"
      "existingIds ?st ''https://example.org/13'' = None"
    by (simp_all add: loadExistingIds_def loadEpisode_def known_episode_def emptyMapper_def
          truthyNum_def truthyStr_def Let_def)
  have nt: "normalizeTitle ''#12: The Bezos Letters!'' = ''12 the bezos letters''"
      "normalizeTitle ''  #12 the  bezos LETTERS'' = ''12 the bezos letters''"
      "normalizeTitle ''Renamed'' = ''renamed''"
      "normalizeTitle ''Another One'' = ''another one''"
    by code_simp+
  have t: "titleToId ?st ''12 the bezos letters'' = Some ''ep_12_1a2b3c4d''"
      "titleToId ?st ''another one'' = None"
    by (simp_all add: loadExistingIds_def loadEpisode_def known_episode_def emptyMapper_def
          truthyNum_def truthyStr_def Let_def nt)
  have g: "generateEpisodeId ''123e4567-e89b'' ''1704067200000'' new_episode = ''ep_13_123e4567''"
    by code_simp
  have 1: "fst (findOrCreateEpisodeId ''123e4567-e89b'' ''1704067200000'' same_number ?st) =
             ''ep_12_1a2b3c4d''"
    using find_or_create_priority [OF k, of "''123e4567-e89b''" "''1704067200000''" same_number] n
    by (simp add: same_number_def)
  have 2: "fst (findOrCreateEpisodeId ''123e4567-e89b'' ''1704067200000'' same_url ?st) =
             ''ep_12_1a2b3c4d''"
    using find_or_create_priority [OF k, of "''123e4567-e89b''" "''1704067200000''" same_url] n u
    by (simp add: same_url_def)
  have 3: "fst (findOrCreateEpisodeId ''123e4567-e89b'' ''1704067200000'' same_title ?st) =
             ''ep_12_1a2b3c4d''"
    using find_or_create_priority [OF k, of "''123e4567-e89b''" "''1704067200000''" same_title] u t
    by (simp add: same_title_def nt)
  have 4: "fst (findOrCreateEpisodeId ''123e4567-e89b'' ''1704067200000'' new_episode ?st) =
             ''ep_13_123e4567''"
    using find_or_create_priority [OF k, of "''123e4567-e89b''" "''1704067200000''" new_episode]
      n u t g
    by (simp add: new_episode_def nt)
  show ?thesis using k 1 2 3 4 by blast
qed

section \<open>Properties of the ingestion\<close>

lemma entityLoopIngest_entities:
  "fst (entityLoopIngest episodeId payloads entities globalEntities) =
     entities @ map (entityOfPayload episodeId)
                  (filter (\<lambda>p. truthyStr (p_name p) \<and> truthyStr (p_type p)) payloads)"
  by (induction payloads arbitrary: entities globalEntities) (simp_all add: Let_def)

lemma createEntityId_not_Nil: "createEntityId name type episodeId \<noteq> []"
  by (simp add: createEntityId_def Let_def)

lemma entityOfPayload_fields:
  "e_id (entityOfPayload episodeId p) \<noteq> [] \<and> e_episode_id (entityOfPayload episodeId p) = episodeId"
  by (simp add: entityOfPayload_def createEntityId_not_Nil)

lemma findEntityId_Some:
  "findEntityId entityName entities = Some i \<Longrightarrow>
   \<exists>e \<in> set entities. e_id e = i \<and> toLowerCase (e_name e) = toLowerCase entityName"
  by (auto simp: findEntityId_def find_Some_iff split: option.splits)

lemma relationshipLoopIngest_char:
  assumes ents: "\<forall>e \<in> set entities. e_id e \<noteq> [] \<and> e_episode_id e = episodeId"
  shows "\<exists>rs. relationshipLoopIngest uuid episodeId entities payloads acc = acc @ rs \<and>
           (\<forall>r \<in> set rs. resolvedIn episodeId entities r) \<and>
           map (\<lambda>r. (r_entity1_name r, r_entity2_name r)) rs =
             map (\<lambda>p. (the (q_entity1_name p), the (q_entity2_name p)))
                 (filter (namesFound entities) payloads)"
proof (induction payloads arbitrary: acc)
  case Nil
  show ?case by simp
next
  case (Cons p ps)
  show ?case
  proof (cases "namesFound entities p")
    case False
    have "relationshipLoopIngest uuid episodeId entities (p # ps) acc =
            relationshipLoopIngest uuid episodeId entities ps acc"
      using False by (auto simp: namesFound_def Let_def truthyStr_def split: option.splits)
    then show ?thesis using Cons.IH [of acc] False by simp
  next
    case True
    then obtain i1 i2 where f: "findEntityId (the (q_entity1_name p)) entities = Some i1"
        "findEntityId (the (q_entity2_name p)) entities = Some i2"
      by (auto simp: namesFound_def)
    obtain e1 where e1: "e1 \<in> set entities" "e_id e1 = i1"
        "toLowerCase (e_name e1) = toLowerCase (the (q_entity1_name p))"
      using findEntityId_Some [OF f(1)] by blast
    obtain e2 where e2: "e2 \<in> set entities" "e_id e2 = i2"
        "toLowerCase (e_name e2) = toLowerCase (the (q_entity2_name p))"
      using findEntityId_Some [OF f(2)] by blast
    have ne: "i1 \<noteq> []" "i2 \<noteq> []" using ents e1 e2 by auto
    let ?r = "relationshipOfPayload (uuid (length acc)) episodeId i1 i2 p"
    have step: "relationshipLoopIngest uuid episodeId entities (p # ps) acc =
            relationshipLoopIngest uuid episodeId entities ps (acc @ [?r])"
      using True f ne by (simp add: namesFound_def Let_def truthyStr_def)
    have res: "resolvedIn episodeId entities ?r"
      using ents e1 e2 by (auto simp: resolvedIn_def relationshipOfPayload_def)
    have nm: "(r_entity1_name ?r, r_entity2_name ?r) =
                (the (q_entity1_name p), the (q_entity2_name p))"
      by (simp add: relationshipOfPayload_def)
    obtain rs where rs:
      "relationshipLoopIngest uuid episodeId entities ps (acc @ [?r]) = (acc @ [?r]) @ rs"
      "\<forall>r \<in> set rs. resolvedIn episodeId entities r"
      "map (\<lambda>r. (r_entity1_name r, r_entity2_name r)) rs =
             map (\<lambda>p. (the (q_entity1_name p), the (q_entity2_name p)))
                 (filter (namesFound entities) ps)"
      using Cons.IH [of "acc @ [?r]"] by blast
    have "relationshipLoopIngest uuid episodeId entities (p # ps) acc = acc @ (?r # rs)"
      using step rs(1) by simp
    moreover have "\<forall>r \<in> set (?r # rs). resolvedIn episodeId entities r"
      using res rs(2) by simp
    moreover have "map (\<lambda>r. (r_entity1_name r, r_entity2_name r)) (?r # rs) =
             map (\<lambda>p. (the (q_entity1_name p), the (q_entity2_name p)))
                 (filter (namesFound entities) (p # ps))"
      using True nm rs(3) by simp
    ultimately show ?thesis by blast
  qed
qed

lemma processed_entities:
  "fst (fst (processExtractedEntities uuid extractedData episodeId globalEntities)) =
     map (entityOfPayload episodeId)
       (filter (\<lambda>p. truthyStr (p_name p) \<and> truthyStr (p_type p))
          (case xd_entities extractedData of None \<Rightarrow> [] | Some ps \<Rightarrow> ps))"
  using entityLoopIngest_entities [of episodeId _ "[]" globalEntities]
  by (simp add: processExtractedEntities_def Let_def split_def split: option.splits)

lemma processed_relationships:
  "snd (fst (processExtractedEntities uuid extractedData episodeId globalEntities)) =
     (case xd_relationships extractedData of
        None \<Rightarrow> []
      | Some ps \<Rightarrow>
          relationshipLoopIngest uuid episodeId
            (fst (fst (processExtractedEntities uuid extractedData episodeId globalEntities)))
            ps [])"
  by (simp add: processExtractedEntities_def Let_def split_def split: option.splits)

text \<open>
  C9. Whatever the response holds, \<open>processExtractedEntities\<close> returns. Every
  relationship it stores carries the episode's id, and each of its two entity ids is
  the id of an entity extracted in the same call whose lower-cased name is the
  lower-cased name the relationship gives. The stored relationships are, in order, the
  payloads whose two names are truthy and are both found among those entities; a
  payload that names an entity not found there leaves no relationship.
\<close>

theorem stored_relationships_resolve:
  assumes "processExtractedEntities uuid extractedData episodeId globalEntities =
             ((entities, relationships), globalEntities')"
  shows "(\<forall>r \<in> set relationships.
            r_episode_id r = episodeId \<and>
            (\<exists>e1 \<in> set entities. e_episode_id e1 = episodeId \<and> e_id e1 = r_entity1_id r \<and>
                 toLowerCase (e_name e1) = toLowerCase (r_entity1_name r)) \<and>
            (\<exists>e2 \<in> set entities. e_episode_id e2 = episodeId \<and> e_id e2 = r_entity2_id r \<and>
                 toLowerCase (e_name e2) = toLowerCase (r_entity2_name r)))
       \<and> map (\<lambda>r. (r_entity1_name r, r_entity2_name r)) relationships =
           map (\<lambda>p. (the (q_entity1_name p), the (q_entity2_name p)))
             (filter (\<lambda>p. truthyStr (q_entity1_name p) \<and> truthyStr (q_entity2_name p) \<and>
                          findEntityId (the (q_entity1_name p)) entities \<noteq> None \<and>
                          findEntityId (the (q_entity2_name p)) entities \<noteq> None)
                (case xd_relationships extractedData of None \<Rightarrow> [] | Some ps \<Rightarrow> ps))"
proof -
  have F: "fst (fst (processExtractedEntities uuid extractedData episodeId globalEntities)) =
             entities"
    using assms by simp
  have S: "snd (fst (processExtractedEntities uuid extractedData episodeId globalEntities)) =
             relationships"
    using assms by simp
  have E: "entities = map (entityOfPayload episodeId)
       (filter (\<lambda>p. truthyStr (p_name p) \<and> truthyStr (p_type p))
          (case xd_entities extractedData of None \<Rightarrow> [] | Some ps \<Rightarrow> ps))"
    using processed_entities [of uuid extractedData episodeId globalEntities]
    unfolding F .
  have ents: "\<forall>e \<in> set entities. e_id e \<noteq> [] \<and> e_episode_id e = episodeId"
    unfolding E using entityOfPayload_fields by auto
  have R: "relationships =
     (case xd_relationships extractedData of
        None \<Rightarrow> []
      | Some ps \<Rightarrow> relationshipLoopIngest uuid episodeId entities ps [])"
    using processed_relationships [of uuid extractedData episodeId globalEntities]
    unfolding F S .
  show ?thesis
  proof (cases "xd_relationships extractedData")
    case None
    then show ?thesis using R by simp
  next
    case (Some ps)
    obtain rs where rs: "relationshipLoopIngest uuid episodeId entities ps [] = [] @ rs"
        "\<forall>r \<in> set rs. resolvedIn episodeId entities r"
        "map (\<lambda>r. (r_entity1_name r, r_entity2_name r)) rs =
             map (\<lambda>p. (the (q_entity1_name p), the (q_entity2_name p)))
                 (filter (namesFound entities) ps)"
      using relationshipLoopIngest_char [OF ents, of uuid ps "[]"] by blast
    have nf: "namesFound entities =
        (\<lambda>p. truthyStr (q_entity1_name p) \<and> truthyStr (q_entity2_name p) \<and>
             findEntityId (the (q_entity1_name p)) entities \<noteq> None \<and>
             findEntityId (the (q_entity2_name p)) entities \<noteq> None)"
      by (rule ext) (simp add: namesFound_def)
    have "relationships = rs" using R Some rs(1) by simp
    then show ?thesis using rs(2,3) Some
      by (simp add: resolvedIn_def nf)
  qed
qed

text \<open>
  A response with two usable entities and two relationship payloads: the first is
  stored (its second name differs in case only), the second names an entity that was
  not extracted and is dropped.
\<close>

theorem stored_relationships_resolve_witness:
  "map e_name (fst (fst (processExtractedEntities sample_uuid sample_response ''ep_12_1a2b3c4d''
       Map.empty))) = [''Jeff Bezos'', ''Amazon''] \<and>
   map (\<lambda>r. (r_entity1_name r, r_entity2_name r))
     (snd (fst (processExtractedEntities sample_uuid sample_response ''ep_12_1a2b3c4d''
        Map.empty))) = [(''Amazon'', ''jeff bezos'')]"
proof -
  let ?X = "processExtractedEntities sample_uuid sample_response ''ep_12_1a2b3c4d'' Map.empty"
  have h: "?X = ((fst (fst ?X), snd (fst ?X)), snd ?X)" by simp
  have e: "map e_name (fst (fst ?X)) = [''Jeff Bezos'', ''Amazon'']" by code_simp
  have f: "map (\<lambda>p. (the (q_entity1_name p), the (q_entity2_name p)))
             (filter (\<lambda>p. truthyStr (q_entity1_name p) \<and> truthyStr (q_entity2_name p) \<and>
                          findEntityId (the (q_entity1_name p)) (fst (fst ?X)) \<noteq> None \<and>
                          findEntityId (the (q_entity2_name p)) (fst (fst ?X)) \<noteq> None)
                (case xd_relationships sample_response of None \<Rightarrow> [] | Some ps \<Rightarrow> ps)) =
           [(''Amazon'', ''jeff bezos'')]"
    by code_simp
  have "map (\<lambda>r. (r_entity1_name r, r_entity2_name r)) (snd (fst ?X)) =
          [(''Amazon'', ''jeff bezos'')]"
    using stored_relationships_resolve [OF h] f by simp
  then show ?thesis using e by blast
qed

text \<open>
  C10. The entities returned are, in order, the entities built from the payloads whose
  name and type are both truthy (present and not empty); every other payload is
  skipped. The entity built from a payload has the payload's name and type, and its
  confidence is the payload's unless that is absent or 0, when it is \<open>0.8\<close>.
\<close>

theorem entity_payload_acceptance:
  "fst (fst (processExtractedEntities uuid extractedData episodeId globalEntities)) =
     map (entityOfPayload episodeId)
       (filter (\<lambda>p. truthyStr (p_name p) \<and> truthyStr (p_type p))
          (case xd_entities extractedData of None \<Rightarrow> [] | Some ps \<Rightarrow> ps))
   \<and> e_name (entityOfPayload episodeId p) = the (p_name p)
   \<and> e_type (entityOfPayload episodeId p) = the (p_type p)
   \<and> e_confidence_score (entityOfPayload episodeId p) =
       Some (case p_confidence_score p of
               None \<Rightarrow> 4 / 5
             | Some c \<Rightarrow> if c = 0 then 4 / 5 else c)"
proof -
  have accepted:
    "fst (fst (processExtractedEntities uuid extractedData episodeId globalEntities)) =
       map (entityOfPayload episodeId)
         (filter (\<lambda>p. truthyStr (p_name p) \<and> truthyStr (p_type p))
            (case xd_entities extractedData of None \<Rightarrow> [] | Some ps \<Rightarrow> ps))"
    by (rule processed_entities)
  have fields: "e_name (entityOfPayload episodeId p) = the (p_name p)"
      "e_type (entityOfPayload episodeId p) = the (p_type p)"
    by (simp_all add: entityOfPayload_def)
  have confidence: "e_confidence_score (entityOfPayload episodeId p) =
       Some (case p_confidence_score p of
               None \<Rightarrow> 4 / 5
             | Some c \<Rightarrow> if c = 0 then 4 / 5 else c)"
    by (simp add: entityOfPayload_def orElse_def)
  show ?thesis using accepted fields confidence by blast
qed

text \<open>
  Of three payloads the one without type is skipped; the confidence 0 of the first
  becomes \<open>0.8\<close>, the confidence \<open>0.9\<close> of the second stays.
\<close>

theorem entity_payload_acceptance_witness:
  "map (\<lambda>e. (e_name e, e_type e, e_confidence_score e))
     (fst (fst (processExtractedEntities sample_uuid sample_response ''ep_12_1a2b3c4d''
        Map.empty))) =
   [(''Jeff Bezos'', ''person'', Some (4 / 5)), (''Amazon'', ''place'', Some (9 / 10))]"
proof -
  have "map (\<lambda>e. (e_name e, e_type e, e_confidence_score e))
     (map (entityOfPayload ''ep_12_1a2b3c4d'')
       (filter (\<lambda>p. truthyStr (p_name p) \<and> truthyStr (p_type p))
          (case xd_entities sample_response of None \<Rightarrow> [] | Some ps \<Rightarrow> ps))) =
   [(''Jeff Bezos'', ''person'', Some (4 / 5)), (''Amazon'', ''place'', Some (9 / 10))]"
    by code_simp
  then show ?thesis
    using entity_payload_acceptance [of sample_uuid sample_response "''ep_12_1a2b3c4d''" Map.empty]
    by simp
qed

end
